theory Spec2Isabelle
  imports Main
begin

section \<open>The parsed document tree\<close>

text \<open>
  The scraper works on the tree that BeautifulSoup builds from the page. A node of that
  tree is either a string or a \<open>Tag\<close> with a name, a dictionary of attributes and an ordered
  list of children. A string is an object of class \<open>NavigableString\<close> itself (a run of
  text) or of one of its subclasses (a comment, a CDATA section, a doctype, the content of
  a script or style element, and so on); \<open>isinstance(node, NavigableString)\<close> holds for
  both, and \<open>str(node)\<close> is the string's content. The dictionary is kept as an association
  list and read with \<open>map_of\<close>. The BeautifulSoup object itself is a \<open>Tag\<close> (named
  \<open>[document]\<close>) whose children are the top-level nodes of the page, so a parsed
  document is a value of type \<open>tag\<close> as well. Fetching and parsing the page are outside this
  development: every function below starts from the parsed tree.

  Strings are lists of 8-bit characters, read as the code points below 256.
\<close>

datatype string_class =
  CData | Comment | Declaration | Doctype | ProcessingInstruction
  | Script | Stylesheet | TemplateString | RubyTextString | RubyParenthesisString

datatype node = NavigableString string | SubclassString string_class string | TagNode tag
and tag = Tag (name: string) (attrs: "(string \<times> string) list") (children: "node list")

text \<open>\<open>node.get(key, default)\<close>: the attribute's value, or the default when it is absent.\<close>

definition get :: "tag \<Rightarrow> string \<Rightarrow> string \<Rightarrow> string" where
  "get t key dflt = (case map_of (attrs t) key of None \<Rightarrow> dflt | Some v \<Rightarrow> v)"

text \<open>
  \<open>Tag.descendants\<close> walks the subtree below a tag in document order (pre-order), the tag
  itself excluded.
\<close>

fun node_and_descendants :: "node \<Rightarrow> node list"
  and descendants :: "tag \<Rightarrow> node list" where
  "node_and_descendants (NavigableString s) = [NavigableString s]"
| "node_and_descendants (SubclassString k s) = [SubclassString k s]"
| "node_and_descendants (TagNode t) = TagNode t # descendants t"
| "descendants (Tag n a cs) = concat (map node_and_descendants cs)"

fun tags :: "node list \<Rightarrow> tag list" where
  "tags [] = []"
| "tags (NavigableString s # ns) = tags ns"
| "tags (SubclassString k s # ns) = tags ns"
| "tags (TagNode t # ns) = t # tags ns"

text \<open>
  The strings that \<open>get_text\<close> collects from a list of nodes: those whose class is
  \<open>NavigableString\<close> or \<open>CData\<close> exactly. Comments and the other subclasses are passed over.
  These are the string types of interest on every tag but \<open>script\<close>, \<open>style\<close>, \<open>template\<close>,
  \<open>rt\<close> and \<open>rp\<close>; the scraper calls \<open>get_text\<close> on \<open>code\<close> and \<open>pre\<close> elements only.
\<close>

fun all_strings :: "node list \<Rightarrow> string list" where
  "all_strings [] = []"
| "all_strings (NavigableString s # ns) = s # all_strings ns"
| "all_strings (SubclassString k s # ns) =
     (if k = CData then s # all_strings ns else all_strings ns)"
| "all_strings (TagNode t # ns) = all_strings ns"

text \<open>
  \<open>find_all\<close> keeps the tags that match, in document order, among all descendants or
  (\<open>recursive=False\<close>) among the direct children; \<open>find\<close> is its first result, or \<open>None\<close>.
\<close>

definition find_all :: "(tag \<Rightarrow> bool) \<Rightarrow> bool \<Rightarrow> tag \<Rightarrow> tag list" where
  "find_all p recursive t = filter p (tags (if recursive then descendants t else children t))"

definition find_tag :: "(tag \<Rightarrow> bool) \<Rightarrow> tag \<Rightarrow> tag option" where
  "find_tag p t = (case find_all p True t of [] \<Rightarrow> None | r # _ \<Rightarrow> Some r)"

definition named :: "string \<Rightarrow> tag \<Rightarrow> bool" where
  "named n t = (name t = n)"

definition named_in :: "string list \<Rightarrow> tag \<Rightarrow> bool" where
  "named_in ns t = (name t \<in> set ns)"

definition with_id :: "string \<Rightarrow> string \<Rightarrow> tag \<Rightarrow> bool" where
  "with_id n v t = (name t = n \<and> map_of (attrs t) ''id'' = Some v)"

section \<open>Strings\<close>

text \<open>
  \<open>str.strip\<close>, \<open>str.rstrip\<close> and \<open>str.join\<close>. The whitespace characters are the code
  points below 256 for which \<open>str.isspace\<close> holds.
\<close>

definition whitespace :: "char list" where
  "whitespace = [CHR 0x09, CHR 0x0A, CHR 0x0B, CHR 0x0C, CHR 0x0D, CHR 0x1C, CHR 0x1D,
     CHR 0x1E, CHR 0x1F, CHR 0x20, CHR 0x85, CHR 0xA0]"

definition isspace :: "char \<Rightarrow> bool" where
  "isspace c = (c \<in> set whitespace)"

definition lstrip :: "string \<Rightarrow> string" where
  "lstrip s = dropWhile isspace s"

definition rstrip :: "string \<Rightarrow> string" where
  "rstrip s = rev (dropWhile isspace (rev s))"

definition strip :: "string \<Rightarrow> string" where
  "strip s = rstrip (lstrip s)"

fun join :: "string \<Rightarrow> string list \<Rightarrow> string" where
  "join sep [] = []"
| "join sep [x] = x"
| "join sep (x # y # ys) = x @ sep @ join sep (y # ys)"

text \<open>The decimal numeral of a natural number, as \<open>f"{idx}"\<close> prints it.\<close>

fun str_of_nat :: "nat \<Rightarrow> string" where
  "str_of_nat n =
     (if n < 10 then [char_of (48 + n)]
      else str_of_nat (n div 10) @ [char_of (48 + n mod 10)])"

declare str_of_nat.simps [simp del]

text \<open>
  \<open>Tag.get_text(separator, strip)\<close> joins the text runs below the tag (comments and the
  like excluded, see \<open>all_strings\<close>) with the separator. With \<open>strip=True\<close> every run is
  stripped on its own and a run that is empty afterwards is left out.
\<close>

definition get_text :: "string \<Rightarrow> bool \<Rightarrow> tag \<Rightarrow> string" where
  "get_text separator strp t =
     join separator
       (if strp then filter (\<lambda>s. s \<noteq> []) (map strip (all_strings (descendants t)))
        else all_strings (descendants t))"

text \<open>
  \<open>textwrap.dedent\<close>: lines made of spaces and tabs only are emptied, the margin is the
  longest run of leading spaces and tabs shared by the lines that are left non-empty, and
  the margin is removed from the front of every line that starts with it.
\<close>

fun split :: "char \<Rightarrow> string \<Rightarrow> string list" where
  "split sep [] = [[]]"
| "split sep (c # cs) =
     (if c = sep then [] # split sep cs
      else (case split sep cs of [] \<Rightarrow> [[c]] | l # ls \<Rightarrow> (c # l) # ls))"

definition blank :: "char \<Rightarrow> bool" where
  "blank c = (c = CHR '' '' \<or> c = CHR 0x09)"

definition startswith :: "string \<Rightarrow> string \<Rightarrow> bool" where
  "startswith s p = (take (length p) s = p)"

definition next_margin :: "string option \<Rightarrow> string \<Rightarrow> string option" where
  "next_margin margin indent =
     (case margin of
        None \<Rightarrow> Some indent
      | Some m \<Rightarrow>
          if startswith indent m then Some m
          else if startswith m indent then Some indent
          else Some (map fst (takeWhile (\<lambda>(x, y). x = y) (zip m indent))))"

definition dedent :: "string \<Rightarrow> string" where
  "dedent text =
     (let lines = map (\<lambda>l. if l \<noteq> [] \<and> list_all blank l then [] else l)
                      (split CHR ''\<newline>'' text);
          indents = map (takeWhile blank) (filter (\<lambda>l. dropWhile blank l \<noteq> []) lines);
          margin = foldl next_margin None indents
      in case margin of
           None \<Rightarrow> join ''\<newline>'' lines
         | Some m \<Rightarrow>
             if m \<noteq> [] then
               join ''\<newline>'' (map (\<lambda>l. if startswith l m then drop (length m) l else l) lines)
             else join ''\<newline>'' lines)"

section \<open>The content container\<close>

datatype error = ValueError

text \<open>
  The truth value of a candidate in \<open>if candidate:\<close>. \<open>None\<close> is false. A \<open>Tag\<close> is true
  whatever it contains: BeautifulSoup's \<open>Tag.__bool__\<close> returns \<open>True\<close>, so the number of
  children (\<open>Tag.__len__\<close>) is not consulted.
\<close>

definition truth :: "tag option \<Rightarrow> bool" where
  "truth candidate = (case candidate of None \<Rightarrow> False | Some t \<Rightarrow> True)"

fun first_candidate :: "tag option list \<Rightarrow> error + tag" where
  "first_candidate [] = Inl ValueError"
| "first_candidate (candidate # candidates) =
     (case candidate of
        Some t \<Rightarrow> if truth candidate then Inr t else first_candidate candidates
      | None \<Rightarrow> first_candidate candidates)"

definition extract_main_content :: "tag \<Rightarrow> error + tag" where
  "extract_main_content soup =
     (let candidates =
            [find_tag (named ''article'') soup,
             find_tag (named ''main'') soup,
             find_tag (with_id ''div'' ''content'') soup,
             find_tag (named ''body'') soup]
      in first_candidate candidates)"

text \<open>
  The specification's third candidate, for comparison with the code's: an element of any
  name whose \<open>id\<close> attribute is the given value.
\<close>

definition has_id :: "string \<Rightarrow> tag \<Rightarrow> bool" where
  "has_id v t = (map_of (attrs t) ''id'' = Some v)"

section \<open>Inline rendering\<close>

fun inline_to_markdown :: "node \<Rightarrow> string" where
  "inline_to_markdown (NavigableString s) = s"
| "inline_to_markdown (SubclassString k s) = s"
| "inline_to_markdown (TagNode (Tag n a cs)) =
    (if n = ''strong'' \<or> n = ''b'' then
       ''**'' @ concat (map inline_to_markdown cs) @ ''**''
     else if n = ''em'' \<or> n = ''i'' then
       ''*'' @ concat (map inline_to_markdown cs) @ ''*''
     else if n = ''code'' then
       ''`'' @ get_text [] True (Tag n a cs) @ ''`''
     else if n = ''a'' then
       (let href = strip (get (Tag n a cs) ''href'' []);
            text = strip (concat (map inline_to_markdown cs));
            text = (if text = [] then (if href \<noteq> [] then href else ''link'') else text)
        in if href \<noteq> [] then ''['' @ text @ '']('' @ href @ '')'' else text)
     else if n = ''br'' then
       ''\<newline>''
     else concat (map inline_to_markdown cs))"

section \<open>Block rendering\<close>

text \<open>
  \<open>lines\<close> collects the pieces of the block; the result joins the non-empty pieces with
  a newline (\<open>"\n".join(filter(None, lines))\<close>).
\<close>

function block_to_markdown :: "tag \<Rightarrow> nat \<Rightarrow> string" where
  "block_to_markdown (Tag n a cs) indent_level =
     (let node = Tag n a cs;
          indent = concat (replicate indent_level ''    '');
          lines =
            (if n \<in> set [''h1'', ''h2'', ''h3'', ''h4'', ''h5'', ''h6''] then
               (let level = of_char (n ! 1) - (48::nat);
                    prefix = replicate level CHR ''#''
                in [prefix @ '' '' @ strip (inline_to_markdown (TagNode node)) @ ''\<newline>''])
             else if n = ''p'' then
               (let text = strip (inline_to_markdown (TagNode node))
                in if text \<noteq> [] then [text @ ''\<newline>''] else [])
             else if n \<in> set [''ul'', ''ol''] then
               (let is_ordered = (n = ''ol'')
                in map (\<lambda>(idx, li).
                     let bullet = (if is_ordered then str_of_nat idx @ ''. '' else ''- '');
                         content_parts = concat (map (\<lambda>child.
                           case child of
                             NavigableString s \<Rightarrow> [s]
                           | SubclassString k s \<Rightarrow> [s]
                           | TagNode c \<Rightarrow>
                               if name c \<in> set [''ul'', ''ol''] then
                                 (let nested = block_to_markdown c (indent_level + 1)
                                  in if nested \<noteq> [] then [''\<newline>'' @ nested] else [])
                               else [inline_to_markdown child]) (children li))
                     in indent @ bullet @ strip (concat content_parts))
                   (List.enumerate 1 (find_all (named ''li'') False node))
                   @ [[]])
             else if n = ''table'' then
               (let rows = find_all (named ''tr'') True node;
                    table_data = map (\<lambda>row. map (\<lambda>th. strip (inline_to_markdown (TagNode th)))
                                    (find_all (named_in [''th'', ''td'']) True row)) rows
                in if table_data \<noteq> [] then
                     (let header = hd table_data;
                          separator = map (\<lambda>_. ''---'') header
                      in [join '' | '' header, join '' | '' separator]
                         @ map (join '' | '') (tl table_data) @ [[]])
                   else [])
             else if n = ''pre'' then
               (let code_text = rstrip (get_text ''\<newline>'' False node)
                in if code_text \<noteq> [] then [''```\<newline>'' @ code_text @ ''\<newline>```\<newline>''] else [])
             else
               concat (map (\<lambda>child.
                 case child of
                   TagNode c \<Rightarrow> [block_to_markdown c indent_level]
                 | NavigableString s \<Rightarrow>
                     (let text = strip s
                      in if text \<noteq> [] then [indent @ text @ ''\<newline>''] else [])
                 | SubclassString k s \<Rightarrow>
                     (let text = strip s
                      in if text \<noteq> [] then [indent @ text @ ''\<newline>''] else [])) cs))
      in join ''\<newline>'' (filter (\<lambda>l. l \<noteq> []) lines))"
  by pat_completeness auto

termination
proof -
  have tags_size: "t \<in> set (tags ns) \<Longrightarrow> size t < Suc (size_list size ns)" for t ns
    by (induction ns rule: tags.induct) auto
  have child_size: "c \<in> set (children t) \<Longrightarrow> size c < size t" for c t
    by (cases t) (auto simp: less_Suc_eq_le size_list_estimation')
  have item_size: "size li < size t"
    if "(idx, li) \<in> set (List.enumerate k (find_all p False t))" for idx li k p t
  proof -
    from that have "li \<in> set (find_all p False t)"
      by (auto simp: enumerate_eq_zip dest: in_set_zipE)
    then have "li \<in> set (tags (children t))"
      by (simp add: find_all_def)
    then show ?thesis
      using tags_size [of li "children t"] by (cases t) simp
  qed
  show ?thesis
  proof (relation "measure (\<lambda>(t, l). size t)")
    show "wf (measure (\<lambda>(t, l). size t))" by simp
  next
    fix n :: string and a :: "(string \<times> string) list" and cs :: "node list"
      and indent_level :: nat and node :: tag and x :: "nat \<times> tag" and idx :: nat
      and li :: tag and child :: node and c :: tag
    assume "node = Tag n a cs"
      and "x \<in> set (List.enumerate 1 (find_all (named ''li'') False node))"
      and "(idx, li) = x" and "child \<in> set (children li)" and "child = TagNode c"
    then have "size li < size (Tag n a cs)" and "size (TagNode c) < size li"
      using item_size child_size by blast+
    then show "((c, indent_level + 1), (Tag n a cs, indent_level)) \<in> measure (\<lambda>(t, l). size t)"
      by simp
  next
    fix n :: string and a :: "(string \<times> string) list" and cs :: "node list"
      and indent_level :: nat and child :: node and c :: tag
    assume "child \<in> set cs" and "child = TagNode c"
    then show "((c, indent_level), (Tag n a cs, indent_level)) \<in> measure (\<lambda>(t, l). size t)"
      using child_size [of child "Tag n a cs"] by simp
  qed
qed

declare block_to_markdown.simps [simp del]


section \<open>Assembling the document\<close>

text \<open>
  \<open>html_to_markdown\<close> starts here from the parsed tree. The blocks are the non-empty
  renderings of the container's direct \<open>Tag\<close> children, text children being skipped.
\<close>

definition blocks_of :: "node list \<Rightarrow> string list" where
  "blocks_of nodes =
     concat (map (\<lambda>child.
       case child of
         TagNode c \<Rightarrow> (let md = block_to_markdown c 0 in if md \<noteq> [] then [md] else [])
       | NavigableString s \<Rightarrow> []
       | SubclassString k s \<Rightarrow> []) nodes)"

definition html_to_markdown :: "tag \<Rightarrow> error + string" where
  "html_to_markdown soup =
     (case extract_main_content soup of
        Inl e \<Rightarrow> Inl e
      | Inr content \<Rightarrow>
          (let blocks = blocks_of (children content);
               markdown = join ''\<newline>'' blocks
           in Inr (strip (dedent markdown) @ ''\<newline>'')))"

section \<open>Example documents\<close>

definition par :: "string \<Rightarrow> node" where
  "par s = TagNode (Tag ''p'' [] [NavigableString s])"


definition doc_section_only :: tag where
  "doc_section_only =
     Tag ''[document]'' [] [TagNode (Tag ''section'' [(''id'', ''content'')] [par ''x''])]"

definition doc_empty_body :: tag where
  "doc_empty_body = Tag ''[document]'' [] [TagNode (Tag ''body'' [] [])]"


definition doc_section_in_body :: tag where
  "doc_section_in_body =
     Tag ''[document]'' []
       [TagNode (Tag ''body'' []
          [TagNode (Tag ''section'' [(''id'', ''content'')] [par ''x''])])]"

definition doc_div_in_body :: tag where
  "doc_div_in_body =
     Tag ''[document]'' []
       [TagNode (Tag ''body'' []
          [par ''before'',
           TagNode (Tag ''div'' [(''id'', ''content'')] [par ''x''])])]"

definition doc_empty_article :: tag where
  "doc_empty_article =
     Tag ''[document]'' []
       [TagNode (Tag ''body'' [] [TagNode (Tag ''article'' [] []), par ''x''])]"

definition doc_nothing :: tag where
  "doc_nothing = Tag ''[document]'' [] [par ''x'']"

definition doc_list_then_par :: tag where
  "doc_list_then_par =
     Tag ''[document]'' []
       [TagNode (Tag ''body'' []
          [TagNode (Tag ''ul'' [] [TagNode (Tag ''li'' [] [NavigableString ''a''])]),
           par ''b''])]"

definition div_list_then_par :: tag where
  "div_list_then_par =
     Tag ''div'' []
       [TagNode (Tag ''ul'' [] [TagNode (Tag ''li'' [] [NavigableString ''a''])]),
        par ''b'']"

definition one_item_list :: tag where
  "one_item_list = Tag ''ul'' [] [TagNode (Tag ''li'' [] [NavigableString ''a''])]"

definition two_row_table :: tag where
  "two_row_table =
     Tag ''table'' []
       [TagNode (Tag ''tr'' []
          [TagNode (Tag ''th'' [] [NavigableString ''A'']),
           TagNode (Tag ''th'' [] [NavigableString ''B''])]),
        TagNode (Tag ''tr'' []
          [TagNode (Tag ''td'' [] [NavigableString ''1'']),
           TagNode (Tag ''td'' [] [NavigableString ''2''])])]"

definition code_two_runs :: tag where
  "code_two_runs =
     Tag ''code'' [] [NavigableString ''a '', TagNode (Tag ''b'' [] [NavigableString ''b''])]"

definition code_with_comment :: tag where
  "code_with_comment =
     Tag ''code'' [] [NavigableString ''a'', SubclassString Comment ''x'', NavigableString ''b'']"


section \<open>Properties\<close>

subsection \<open>Auxiliary facts\<close>

text \<open>
  The tag that \<open>find\<close> returns satisfies the search condition.
\<close>

lemma find_tag_holds: "find_tag p t = Some r \<Longrightarrow> p r"
  by (auto simp: find_tag_def find_all_def filter_eq_Cons_iff split: list.splits)

text \<open>
  Joining with the empty separator is concatenation.
\<close>

lemma join_empty_separator: "sep = [] \<Longrightarrow> join sep xs = concat xs"
  by (induction sep xs rule: join.induct) auto



subsection \<open>The content container\<close>



text \<open>
  C2, as stated, fails: a document whose only element is a \<open>section\<close> with \<open>id="content"\<close>
  contains an element with that identifier, and the conversion raises the error all the same.
\<close>

theorem section_content_not_found_counterexample:
  "find_tag (has_id ''content'') doc_section_only \<noteq> None \<and>
   html_to_markdown doc_section_only = Inl ValueError"
  by code_simp

text \<open>
  C2, amended. The conversion raises \<open>ValueError\<close> exactly when the document has no \<open>article\<close>,
  no \<open>main\<close>, no \<open>div\<close> with \<open>id="content"\<close> and no \<open>body\<close>; in every other document it returns
  a Markdown string.
\<close>

theorem value_error_iff_no_candidate:
  "(html_to_markdown soup = Inl ValueError) =
     (find_tag (named ''article'') soup = None \<and> find_tag (named ''main'') soup = None \<and>
      find_tag (with_id ''div'' ''content'') soup = None \<and> find_tag (named ''body'') soup = None)
   \<and> ((\<exists>markdown. html_to_markdown soup = Inr markdown) =
     (find_tag (named ''article'') soup \<noteq> None \<or> find_tag (named ''main'') soup \<noteq> None \<or>
      find_tag (with_id ''div'' ''content'') soup \<noteq> None \<or> find_tag (named ''body'') soup \<noteq> None))"
  by (auto simp: html_to_markdown_def extract_main_content_def truth_def Let_def
      split: option.splits sum.splits)

text \<open>
  Both sides of the equivalence occur: a document with a lone paragraph, and one with a body.
\<close>

theorem value_error_iff_no_candidate_witness:
  "html_to_markdown doc_nothing = Inl ValueError \<and>
   (\<exists>markdown. html_to_markdown doc_empty_body = Inr markdown)"
proof -
  have "find_tag (named ''article'') doc_nothing = None \<and>
      find_tag (named ''main'') doc_nothing = None \<and>
      find_tag (with_id ''div'' ''content'') doc_nothing = None \<and>
      find_tag (named ''body'') doc_nothing = None"
    by code_simp
  moreover have "find_tag (named ''body'') doc_empty_body \<noteq> None"
    by code_simp
  ultimately show ?thesis
    using value_error_iff_no_candidate [of doc_nothing]
      value_error_iff_no_candidate [of doc_empty_body] by simp
qed

text \<open>
  C4. When the only candidate present is a \<open>body\<close> without children, the conversion succeeds
  and returns a single newline.
\<close>

theorem empty_body_gives_newline:
  assumes "find_tag (named ''article'') soup = None"
    and "find_tag (named ''main'') soup = None"
    and "find_tag (with_id ''div'' ''content'') soup = None"
    and "find_tag (named ''body'') soup = Some body"
    and "children body = []"
  shows "html_to_markdown soup = Inr ''\<newline>''"
proof -
  have "extract_main_content soup = Inr body"
    using assms by (simp add: extract_main_content_def truth_def)
  moreover have "strip (dedent (join ''\<newline>'' (blocks_of []))) @ ''\<newline>'' = ''\<newline>''"
    by code_simp
  ultimately show ?thesis
    using assms(5) by (simp add: html_to_markdown_def)
qed

text \<open>
  The document \<open><body></body>\<close>.
\<close>

theorem empty_body_gives_newline_witness:
  "html_to_markdown doc_empty_body = Inr ''\<newline>''"
proof -
  have "find_tag (named ''article'') doc_empty_body = None"
    and "find_tag (named ''main'') doc_empty_body = None"
    and "find_tag (with_id ''div'' ''content'') doc_empty_body = None"
    and "find_tag (named ''body'') doc_empty_body = Some (Tag ''body'' [] [])"
    and "children (Tag ''body'' [] []) = []"
    by code_simp+
  then show ?thesis
    by (rule empty_body_gives_newline)
qed

text \<open>
  C6, as stated, fails: with no \<open>article\<close> and no \<open>main\<close>, a \<open>section\<close> with \<open>id="content"\<close> is not
  selected; the search is for \<open>div\<close> elements only, and the \<open>body\<close> is taken instead.
\<close>

theorem section_content_not_selected_counterexample:
  "find_tag (named ''article'') doc_section_in_body = None \<and>
   find_tag (named ''main'') doc_section_in_body = None \<and>
   find_tag (has_id ''content'') doc_section_in_body
     = Some (Tag ''section'' [(''id'', ''content'')] [par ''x'']) \<and>
   extract_main_content doc_section_in_body
     \<noteq> Inr (Tag ''section'' [(''id'', ''content'')] [par ''x''])"
  by code_simp

text \<open>
  C6, amended. With no \<open>article\<close> and no \<open>main\<close> element, the first \<open>div\<close> element whose
  \<open>id\<close> is \<open>content\<close> is the content container.
\<close>

theorem div_content_selected:
  assumes "find_tag (named ''article'') soup = None"
    and "find_tag (named ''main'') soup = None"
    and "find_tag (with_id ''div'' ''content'') soup = Some t"
  shows "extract_main_content soup = Inr t \<and> name t = ''div'' \<and>
         map_of (attrs t) ''id'' = Some ''content''"
  using assms find_tag_holds [OF assms(3)]
  by (simp add: extract_main_content_def truth_def with_id_def)

text \<open>
  A \<open>div#content\<close> inside a body, after a paragraph.
\<close>

theorem div_content_selected_witness:
  "extract_main_content doc_div_in_body = Inr (Tag ''div'' [(''id'', ''content'')] [par ''x''])"
proof -
  have "find_tag (named ''article'') doc_div_in_body = None"
    and "find_tag (named ''main'') doc_div_in_body = None"
    and "find_tag (with_id ''div'' ''content'') doc_div_in_body
      = Some (Tag ''div'' [(''id'', ''content'')] [par ''x''])"
    by code_simp+
  from div_content_selected [OF this] show ?thesis by simp
qed

text \<open>
  C10, as stated, fails: an \<open>article\<close> without children is selected, although the \<open>body\<close>
  that follows in the candidate order has children.
\<close>

theorem childless_article_selected_counterexample:
  "find_tag (named ''article'') doc_empty_article = Some (Tag ''article'' [] []) \<and>
   find_tag (named ''body'') doc_empty_article
     = Some (Tag ''body'' [] [TagNode (Tag ''article'' [] []), par ''x'']) \<and>
   extract_main_content doc_empty_article = Inr (Tag ''article'' [] []) \<and>
   extract_main_content doc_empty_article
     \<noteq> Inr (Tag ''body'' [] [TagNode (Tag ''article'' [] []), par ''x''])"
  by code_simp

text \<open>
  C10, amended. The content container is the first of the first \<open>article\<close>, the first \<open>main\<close>,
  the first \<open>div\<close> with \<open>id="content"\<close> and the first \<open>body\<close> that exists, whether or not it has
  children; the error is raised when none exists.
\<close>

theorem first_existing_candidate_wins:
  "extract_main_content soup =
     (case find_tag (named ''article'') soup of
        Some t \<Rightarrow> Inr t
      | None \<Rightarrow>
          (case find_tag (named ''main'') soup of
             Some t \<Rightarrow> Inr t
           | None \<Rightarrow>
               (case find_tag (with_id ''div'' ''content'') soup of
                  Some t \<Rightarrow> Inr t
                | None \<Rightarrow>
                    (case find_tag (named ''body'') soup of
                       Some t \<Rightarrow> Inr t
                     | None \<Rightarrow> Inl ValueError))))"
  by (simp add: extract_main_content_def truth_def split: option.splits)

text \<open>
  A childless article is selected.
\<close>

theorem first_existing_candidate_wins_witness:
  "extract_main_content doc_empty_article = Inr (Tag ''article'' [] [])"
proof -
  have "find_tag (named ''article'') doc_empty_article = Some (Tag ''article'' [] [])"
    by code_simp
  then show ?thesis
    using first_existing_candidate_wins [of doc_empty_article] by simp
qed

subsection \<open>Inline rendering\<close>

text \<open>
  C7. The rendering of an \<open>a\<close> element: the trimmed \<open>href\<close> (empty when absent), the trimmed
  rendering of the children, replaced by the \<open>href\<close> or, failing that, by \<open>link\<close> when it is
  empty; \<open>[text](href)\<close> when the \<open>href\<close> is non-empty and the bare text otherwise.
\<close>

theorem anchor_rendering:
  "inline_to_markdown (TagNode (Tag ''a'' attributes cs)) =
     (let href = strip (case map_of attributes ''href'' of None \<Rightarrow> [] | Some v \<Rightarrow> v);
          text = strip (concat (map inline_to_markdown cs));
          shown = (if text \<noteq> [] then text else if href \<noteq> [] then href else ''link'')
      in if href \<noteq> [] then ''['' @ shown @ '']('' @ href @ '')'' else shown)"
  by (simp add: get_def Let_def)

text \<open>
  The two anchors of the specification, and two with a text of their own.
\<close>

theorem anchor_rendering_witness:
  "inline_to_markdown (TagNode (Tag ''a'' [(''href'', ''http://x'')] [NavigableString ''  '']))
     = ''[http://x](http://x)'' \<and>
   inline_to_markdown (TagNode (Tag ''a'' [] [])) = ''link'' \<and>
   inline_to_markdown (TagNode (Tag ''a'' [(''href'', '' http://x '')] [NavigableString '' x y '']))
     = ''[x y](http://x)'' \<and>
   inline_to_markdown (TagNode (Tag ''a'' [] [NavigableString '' x y ''])) = ''x y''"
proof -
  have "(let href = strip (case map_of [(''href'', ''http://x'')] ''href'' of None \<Rightarrow> [] | Some v \<Rightarrow> v);
          text = strip (concat (map inline_to_markdown [NavigableString ''  '']));
          shown = (if text \<noteq> [] then text else if href \<noteq> [] then href else ''link'')
      in if href \<noteq> [] then ''['' @ shown @ '']('' @ href @ '')'' else shown) = ''[http://x](http://x)''"
    by code_simp
  moreover have "(let href = strip (case map_of ([] :: (string \<times> string) list) ''href'' of None \<Rightarrow> [] | Some v \<Rightarrow> v);
          text = strip (concat (map inline_to_markdown []));
          shown = (if text \<noteq> [] then text else if href \<noteq> [] then href else ''link'')
      in if href \<noteq> [] then ''['' @ shown @ '']('' @ href @ '')'' else shown) = ''link''"
    by code_simp
  moreover have "(let href = strip (case map_of [(''href'', '' http://x '')] ''href'' of None \<Rightarrow> [] | Some v \<Rightarrow> v);
          text = strip (concat (map inline_to_markdown [NavigableString '' x y '']));
          shown = (if text \<noteq> [] then text else if href \<noteq> [] then href else ''link'')
      in if href \<noteq> [] then ''['' @ shown @ '']('' @ href @ '')'' else shown) = ''[x y](http://x)''"
    by code_simp
  moreover have "(let href = strip (case map_of ([] :: (string \<times> string) list) ''href'' of None \<Rightarrow> [] | Some v \<Rightarrow> v);
          text = strip (concat (map inline_to_markdown [NavigableString '' x y '']));
          shown = (if text \<noteq> [] then text else if href \<noteq> [] then href else ''link'')
      in if href \<noteq> [] then ''['' @ shown @ '']('' @ href @ '')'' else shown) = ''x y''"
    by code_simp
  ultimately show ?thesis
    by (simp only: anchor_rendering)
qed

text \<open>
  C9, as stated, fails: in \<open><code>a <b>b</b></code>\<close> the space between the two text runs is
  lost, while the flattened text stripped as a whole keeps it.
\<close>

theorem code_interior_whitespace_counterexample:
  "inline_to_markdown (TagNode code_two_runs) = ''`ab`'' \<and>
   ''`'' @ strip (get_text [] False code_two_runs) @ ''`'' = ''`a b`''"
  by code_simp

text \<open>
  C9, amended. A \<open>code\<close> element renders as a backtick, the descendant text runs (strings of
  class \<open>NavigableString\<close> or \<open>CData\<close>; comments and the other string subclasses are left
  out) each stripped of its own surrounding whitespace, empty results left out, concatenated
  without a separator, and a backtick. Whitespace inside a run is kept.
\<close>

theorem code_span_strips_each_run:
  "inline_to_markdown (TagNode (Tag ''code'' attributes cs)) =
     ''`'' @ concat (filter (\<lambda>s. s \<noteq> [])
                  (map strip (all_strings (descendants (Tag ''code'' attributes cs))))) @ ''`''"
  by (simp add: get_text_def join_empty_separator)

text \<open>
  A single run keeps its interior whitespace; two runs lose the whitespace between them;
  the comment in \<open><code>a<!--x-->b</code>\<close> is left out.
\<close>

theorem code_span_strips_each_run_witness:
  "inline_to_markdown (TagNode (Tag ''code'' [] [NavigableString '' x  =  1 ''])) = ''`x  =  1`'' \<and>
   inline_to_markdown (TagNode code_two_runs) = ''`ab`'' \<and>
   inline_to_markdown (TagNode code_with_comment) = ''`ab`''"
proof -
  have "''`'' @ concat (filter (\<lambda>s. s \<noteq> [])
          (map strip (all_strings (descendants (Tag ''code'' [] [NavigableString '' x  =  1 '']))))) @ ''`''
        = ''`x  =  1`''"
    by code_simp
  moreover have "''`'' @ concat (filter (\<lambda>s. s \<noteq> [])
          (map strip (all_strings (descendants (Tag ''code'' []
             [NavigableString ''a '', TagNode (Tag ''b'' [] [NavigableString ''b''])]))))) @ ''`''
        = ''`ab`''"
    by code_simp
  moreover have "''`'' @ concat (filter (\<lambda>s. s \<noteq> [])
          (map strip (all_strings (descendants (Tag ''code'' []
             [NavigableString ''a'', SubclassString Comment ''x'', NavigableString ''b''])))))
          @ ''`''
        = ''`ab`''"
    by code_simp
  ultimately show ?thesis
    unfolding code_two_runs_def code_with_comment_def
    by (simp only: code_span_strips_each_run)
qed

subsection \<open>Block rendering and joining\<close>

text \<open>
  C3. The empty string appended after the items of a list and after the rows of a table is
  removed again by \<open>filter(None, lines)\<close>: the rendering of a one-item list and of a
  two-row table ends with its last item or row, without a newline or a blank line. A
  paragraph and a heading end with one newline.
\<close>

theorem list_and_table_marker_dropped:
  "block_to_markdown one_item_list 0 = ''- a'' \<and>
   block_to_markdown two_row_table 0 = ''A | B\<newline>--- | ---\<newline>1 | 2'' \<and>
   block_to_markdown (Tag ''p'' [] [NavigableString ''x'']) 0 = ''x\<newline>'' \<and>
   block_to_markdown (Tag ''h2'' [] [NavigableString ''T'']) 0 = ''## T\<newline>''"
  by code_simp

text \<open>
  C5. A list followed by a paragraph, inside a generic container and at the top level of the
  content container: the two renderings are separated by one newline, not by a blank line.
\<close>

theorem list_then_paragraph_single_newline:
  "block_to_markdown div_list_then_par 0 = ''- a\<newline>b\<newline>'' \<and>
   html_to_markdown doc_list_then_par = Inr ''- a\<newline>b\<newline>''"
  by code_simp




end
